theory Spec2Isabelle
  imports Main "HOL-Library.Word" "HOL-Library.AList"
begin

section \<open>The host/device memory manager \<open>mm\<close>\<close>

text \<open>
  The model follows the member functions of \<open>mfem::mm\<close> (Setup, Range, Known, Insert,
  Erase, Adrs, Push, Pull) one by one.  Addresses (\<open>void*\<close>) and \<open>size_t\<close> values
  are 64-bit words; \<open>NULL\<close> is the address 0.  Arithmetic on a \<open>size_t*\<close> moves in
  steps of \<open>sizeof(size_t) = 8\<close> bytes, and pointer comparisons are unsigned.
\<close>

type_synonym addr = "64 word"
type_synonym size_t = "64 word"

subsection \<open>Data\<close>

text \<open>The record stored per tracked address (the fields Insert assigns).\<close>

record mm2dev_t =
  host :: bool
  bytes :: size_t
  h_adrs :: addr
  d_adrs :: addr
  ranged :: bool

text \<open>
  Modelled from the spec: the container type \<open>mm_t\<close> is declared in kernels/mm.hpp,
  which is not among the sources.  It is a mapping from host address to record with
  unique keys.  Here it is an association list; the order of the list is the order in
  which \<open>begin() .. end()\<close> visits the entries, and a key that is new goes to the end.
\<close>

type_synonym mm_t = "(addr \<times> mm2dev_t) list"

text \<open>What \<open>operator[]\<close> stores for a key that is not there yet: a value-initialised record.\<close>

definition mm2dev_zero :: mm2dev_t where
  "mm2dev_zero = \<lparr>host = False, bytes = 0, h_adrs = 0, d_adrs = 0, ranged = False\<rparr>"

definition subscript :: "mm_t \<Rightarrow> addr \<Rightarrow> mm2dev_t \<times> mm_t" where
  "subscript m k =
     (case map_of m k of
        Some r \<Rightarrow> (r, m)
      | None \<Rightarrow> (mm2dev_zero, m @ [(k, mm2dev_zero)]))"

text \<open>The ways the process can die.\<close>

datatype fatal =
    Trap            \<comment> \<open>\<open>MFEM_SIGSEGV_FOR_STACK\<close>, that is \<open>__builtin_trap()\<close>\<close>
  | AssertFailed    \<comment> \<open>a failed \<open>assert\<close> or \<open>MFEM_ASSERT\<close>\<close>
  | MfemError       \<comment> \<open>\<open>mfem_error\<close>\<close>
  | NullDeref       \<comment> \<open>\<open>mng\<close> used before Setup\<close>

text \<open>
  Modelled from the spec: the macro \<open>MFEM_ASSERT\<close> is defined in general/error.hpp,
  which is not among the sources.  The spec knows these checks as fatal assertions: a
  false condition ends the run, a true one lets it go on.
\<close>

definition MFEM_ASSERT :: "bool \<Rightarrow> fatal option" where
  "MFEM_ASSERT x = (if x then None else Some AssertFailed)"

text \<open>
  Modelled from the spec: \<open>mfem_error\<close> is defined outside the sources; the spec has
  the run fail fatally where it is called.
\<close>

definition mfem_error :: fatal where
  "mfem_error = MfemError"

text \<open>
  Modelled from the spec: the default of Known's parameter \<open>insert_if_in_range\<close> is
  declared in kernels/mm.hpp, which is not among the sources.  The spec's plain
  \<open>Known(p)\<close> is the exact-match lookup "without range-insertion".
\<close>

definition insert_if_in_range_default :: bool where
  "insert_if_in_range_default = False"

text \<open>The calls made to the device backend, in the order they are made.\<close>

datatype backend_call =
    okMemAlloc size_t
  | okMemcpyHtoDAsync addr addr size_t addr
  | okMemcpyHtoD addr addr size_t
  | okMemcpyDtoH addr addr size_t

text \<open>
  What the code reads from outside: the environment variable XS, the device context
  (\<open>config::Get().Cuda()\<close>, \<open>config::nvcc()\<close>, \<open>config::Get().Stream()\<close>), the address
  the device allocator hands out (a function of the backend calls made so far and of
  the size asked for), and the default value of Insert's parameter \<open>ranged\<close>, which
  is declared in the missing header.
\<close>

record config =
  getenv_XS :: bool
  Cuda :: bool
  nvcc :: bool
  cfg_Stream :: addr
  device_alloc :: "backend_call list \<Rightarrow> size_t \<Rightarrow> addr"
  ranged_default :: bool

text \<open>
  The program state: the registry \<open>mng\<close> (null before Setup), the two file-level
  statics \<open>xs_shift\<close> and \<open>xs_shifted\<close>, and the trace of backend calls.
\<close>

record mm_state =
  mng :: "mm_t option"
  xs_shift :: size_t
  xs_shifted :: bool
  calls :: "backend_call list"

definition initial :: mm_state where
  "initial = \<lparr>mng = None, xs_shift = 0, xs_shifted = False, calls = []\<rparr>"

subsection \<open>Operations\<close>

text \<open>\<open>((size_t*) p) - (size_t*) q\<close>: the signed byte distance divided by 8.\<close>

definition ptr_diff :: "addr \<Rightarrow> addr \<Rightarrow> size_t" where
  "ptr_diff p q = word_of_int (sint (p - q) div 8)"

definition xsShift :: "mm_state \<Rightarrow> addr \<Rightarrow> addr" where
  "xsShift st adrs = (if \<not> xs_shifted st then adrs else adrs - 8 * xs_shift st)"

definition mm_Setup :: "config \<Rightarrow> mm_state \<Rightarrow> fatal + mm_state" where
  "mm_Setup cfg st =
     (if mng st \<noteq> None then Inl AssertFailed
      else Inr (st\<lparr>mng := Some [],
                   xs_shifted := getenv_XS cfg,
                   xs_shift := (if getenv_XS cfg then push_bit 48 1 else xs_shift st)\<rparr>))"

text \<open>The loop of Range over the entries; the result 0 is \<open>NULL\<close>.\<close>

fun Range_loop :: "mm_t \<Rightarrow> addr \<Rightarrow> addr" where
  "Range_loop [] adrs = 0"
| "Range_loop (address # rest) adrs =
     (if h_adrs (snd address) > adrs then Range_loop rest adrs
      else if adrs \<le> h_adrs (snd address) + 8 * bytes (snd address)
           then h_adrs (snd address)
           else Range_loop rest adrs)"

definition mm_Range :: "mm_state \<Rightarrow> addr \<Rightarrow> fatal + addr" where
  "mm_Range st adrs =
     (case mng st of
        None \<Rightarrow> Inl NullDeref
      | Some m \<Rightarrow>
          if map_of m adrs \<noteq> None then Inl AssertFailed
          else Inr (Range_loop m adrs))"

text \<open>
  Known and Insert call each other: Known registers an address found in range through
  Insert (leaving \<open>ranged\<close> to its default), and Insert asks Known (leaving
  \<open>insert_if_in_range\<close> to its default) whether the address is there already.  The
  \<open>assert\<close>s of the standard library are checked.
\<close>

function mm_Known :: "config \<Rightarrow> mm_state \<Rightarrow> addr \<Rightarrow> bool \<Rightarrow> fatal + (bool \<times> mm_state)"
  and mm_Insert :: "config \<Rightarrow> mm_state \<Rightarrow> addr \<Rightarrow> size_t \<Rightarrow> size_t \<Rightarrow> bool
                      \<Rightarrow> fatal + (addr \<times> mm_state)"
where
  "mm_Known cfg st adrs insert_if_in_range =
     (case mng st of
        None \<Rightarrow> Inl NullDeref
      | Some m \<Rightarrow>
          if map_of m adrs \<noteq> None then Inr (True, st)
          else if \<not> insert_if_in_range then Inr (False, st)
          else (case mm_Range st adrs of
                  Inl e \<Rightarrow> Inl e
                | Inr base \<Rightarrow>
                    if base = 0 then Inr (False, st)
                    else (case subscript m base of
                            (mm2dev, m1) \<Rightarrow>
                              if \<not> 0 < bytes mm2dev then Inl AssertFailed
                              else if \<not> base < adrs then Inl AssertFailed
                              else (case mm_Insert cfg (st\<lparr>mng := Some m1\<rparr>) adrs
                                           (bytes mm2dev - ptr_diff adrs base) 1
                                           (ranged_default cfg) of
                                      Inl e \<Rightarrow> Inl e
                                    | Inr (_, st') \<Rightarrow> Inr (True, st')))))"
| "mm_Insert cfg st adrs size_n size_of_T rg =
     (case (if mng st = None then mm_Setup cfg st else Inr st) of
        Inl e \<Rightarrow> Inl e
      | Inr st1 \<Rightarrow>
          (case mm_Known cfg st1 (adrs + 8 * xs_shift st1) insert_if_in_range_default of
             Inl e \<Rightarrow> Inl e
           | Inr (known, st2) \<Rightarrow>
               (case mng st2 of
                  None \<Rightarrow> Inl NullDeref
                | Some m \<Rightarrow>
                    (case (if known then
                             (case subscript m (adrs + 8 * xs_shift st1) of
                                (mm2dev, m1) \<Rightarrow>
                                  if \<not> ranged mm2dev then (Some Trap, m1)
                                  else (MFEM_ASSERT False, m1))
                           else (None, m)) of
                       (Some e, _) \<Rightarrow> Inl e
                     | (None, m0) \<Rightarrow>
                         (case subscript m0 (adrs + 8 * xs_shift st1) of
                            (mm2dev, m1) \<Rightarrow>
                              Inr (adrs + 8 * xs_shift st1,
                                   st2\<lparr>mng := Some (AList.update (adrs + 8 * xs_shift st1)
                                          (mm2dev\<lparr>host := True,
                                                  bytes := size_n * size_of_T,
                                                  h_adrs := adrs + 8 * xs_shift st1,
                                                  d_adrs := 0,
                                                  ranged := rg\<rparr>) m1)\<rparr>))))))"
  by pat_completeness auto
termination
  by (relation "measure (\<lambda>x. case x of
                    Inl (cfg, st, adrs, iir) \<Rightarrow> if iir then 2 else 0
                  | Inr _ \<Rightarrow> 1)") (auto simp: insert_if_in_range_default_def)

declare mm_Known.simps [simp del] mm_Insert.simps [simp del]

declare MFEM_ASSERT_def [simp] mfem_error_def [simp] insert_if_in_range_default_def [simp]

text \<open>Erase: remove the address from the map.\<close>

definition mm_Erase :: "config \<Rightarrow> mm_state \<Rightarrow> addr \<Rightarrow> fatal + (addr \<times> mm_state)" where
  "mm_Erase cfg st adrs =
     (case mm_Known cfg st adrs insert_if_in_range_default of
        Inl e \<Rightarrow> Inl e
      | Inr (known, st1) \<Rightarrow>
          if \<not> known then Inl Trap
          else (case MFEM_ASSERT known of
                  Some e \<Rightarrow> Inl e
                | None \<Rightarrow>
                    (case mng st1 of
                       None \<Rightarrow> Inl NullDeref
                     | Some m \<Rightarrow>
                         Inr (xsShift st1 adrs,
                              st1\<lparr>mng := Some (AList.delete adrs m)\<rparr>))))"

text \<open>Adrs (the spec's Resolve): get the address to work on, from host or device.\<close>

definition mm_Adrs :: "config \<Rightarrow> mm_state \<Rightarrow> addr \<Rightarrow> fatal + (addr \<times> mm_state)" where
  "mm_Adrs cfg st adrs =
     (case mm_Known cfg st adrs True of
        Inl e \<Rightarrow> Inl e
      | Inr (known, st1) \<Rightarrow>
          if \<not> known then Inl Trap
          else (case (MFEM_ASSERT known, mng st1) of
                  (Some e, _) \<Rightarrow> Inl e
                | (None, None) \<Rightarrow> Inl NullDeref
                | (None, Some m) \<Rightarrow>
                    (case subscript m adrs of
                       (mm2dev, m1) \<Rightarrow>
                         if host mm2dev \<and> \<not> Cuda cfg
                         then Inr (xsShift st1 (h_adrs mm2dev), st1\<lparr>mng := Some m1\<rparr>)
                         else if d_adrs mm2dev = 0 then
                           (if \<not> nvcc cfg then Inl mfem_error
                            else
                              (case (if 0 < bytes mm2dev
                                     then (device_alloc cfg (calls st1) (bytes mm2dev),
                                           calls st1 @ [okMemAlloc (bytes mm2dev)])
                                     else (d_adrs mm2dev, calls st1)) of
                                 (d, calls1) \<Rightarrow>
                                   Inr (d,
                                        st1\<lparr>mng := Some (AList.update adrs
                                               (mm2dev\<lparr>d_adrs := d, host := False\<rparr>) m1),
                                            calls := calls1 @
                                               [okMemcpyHtoDAsync d (h_adrs mm2dev)
                                                  (bytes mm2dev) (cfg_Stream cfg)]\<rparr>)))
                         else Inr (d_adrs mm2dev, st1\<lparr>mng := Some m1\<rparr>))))"

text \<open>
  Push and Pull evaluate \<open>Known(adrs)\<close> inside \<open>MFEM_ASSERT\<close>.  Both read the record
  through a const reference and write nothing to it.
\<close>

definition mm_Push :: "config \<Rightarrow> mm_state \<Rightarrow> addr \<Rightarrow> fatal + mm_state" where
  "mm_Push cfg st adrs =
     (case mm_Known cfg st adrs insert_if_in_range_default of
        Inl e \<Rightarrow> Inl e
      | Inr (known, st1) \<Rightarrow>
          (case (MFEM_ASSERT known, mng st1) of
             (Some e, _) \<Rightarrow> Inl e
           | (None, None) \<Rightarrow> Inl NullDeref
           | (None, Some m) \<Rightarrow>
               (case subscript m adrs of
                  (mm2dev, m1) \<Rightarrow>
                    if host mm2dev then Inr (st1\<lparr>mng := Some m1\<rparr>)
                    else Inr (st1\<lparr>mng := Some m1,
                                  calls := calls st1 @
                                    [okMemcpyHtoD (d_adrs mm2dev) (h_adrs mm2dev)
                                       (bytes mm2dev)]\<rparr>))))"

definition mm_Pull :: "config \<Rightarrow> mm_state \<Rightarrow> addr \<Rightarrow> fatal + mm_state" where
  "mm_Pull cfg st adrs =
     (case mm_Known cfg st adrs insert_if_in_range_default of
        Inl e \<Rightarrow> Inl e
      | Inr (known, st1) \<Rightarrow>
          (case (MFEM_ASSERT known, mng st1) of
             (Some e, _) \<Rightarrow> Inl e
           | (None, None) \<Rightarrow> Inl NullDeref
           | (None, Some m) \<Rightarrow>
               (case subscript m adrs of
                  (mm2dev, m1) \<Rightarrow>
                    if host mm2dev then Inr (st1\<lparr>mng := Some m1\<rparr>)
                    else Inr (st1\<lparr>mng := Some m1,
                                  calls := calls st1 @
                                    [okMemcpyDtoH (h_adrs mm2dev) (d_adrs mm2dev)
                                       (bytes mm2dev)]\<rparr>))))"

subsection \<open>The range test\<close>

text \<open>
  The test the loop of Range applies to one record: not \<open>h_adrs > adrs\<close>, and
  \<open>adrs <= end\<close> with \<open>end = (size_t*) h_adrs + bytes\<close>.
\<close>

definition Range_accepts :: "mm2dev_t \<Rightarrow> addr \<Rightarrow> bool" where
  "Range_accepts r adrs = (\<not> h_adrs r > adrs \<and> adrs \<le> h_adrs r + 8 * bytes r)"

text \<open>
  The byte extent of a block as the spec words it: \<open>[base, base + bytes)\<close>, read in
  unbounded arithmetic.
\<close>

definition in_extent :: "mm2dev_t \<Rightarrow> addr \<Rightarrow> bool" where
  "in_extent r adrs =
     (unat (h_adrs r) \<le> unat adrs \<and> unat adrs < unat (h_adrs r) + unat (bytes r))"

subsection \<open>Observing the registry\<close>

text \<open>The record registered under an address, if any (none before Setup).\<close>

definition entry :: "mm_state \<Rightarrow> addr \<Rightarrow> mm2dev_t option" where
  "entry st a = (case mng st of None \<Rightarrow> None | Some m \<Rightarrow> map_of m a)"

subsection \<open>Concrete configurations and states\<close>

text \<open>An allocator that always hands out the device address \<open>0x7000\<close>.\<close>

definition alloc_7000 :: "backend_call list \<Rightarrow> size_t \<Rightarrow> addr" where
  "alloc_7000 cs n = 0x7000"

text \<open>Host-only run, device run, and host-only run with the variable XS set.\<close>

definition cfg_host :: config where
  "cfg_host = \<lparr>getenv_XS = False, Cuda = False, nvcc = False, cfg_Stream = 0,
               device_alloc = alloc_7000, ranged_default = False\<rparr>"

definition cfg_dev :: config where
  "cfg_dev = \<lparr>getenv_XS = False, Cuda = True, nvcc = True, cfg_Stream = 0,
              device_alloc = alloc_7000, ranged_default = False\<rparr>"

definition cfg_xs :: config where
  "cfg_xs = \<lparr>getenv_XS = True, Cuda = False, nvcc = False, cfg_Stream = 0,
             device_alloc = alloc_7000, ranged_default = False\<rparr>"

text \<open>The state after \<open>Insert(0x1000, 16, 1)\<close> on a fresh manager, shifter off.\<close>

definition rec_16 :: mm2dev_t where
  "rec_16 = \<lparr>host = True, bytes = 16, h_adrs = 0x1000, d_adrs = 0, ranged = False\<rparr>"

definition st_16 :: mm_state where
  "st_16 = \<lparr>mng = Some [(0x1000, rec_16)], xs_shift = 0, xs_shifted = False, calls = []\<rparr>"

text \<open>The same block once a device run has resolved it.\<close>

definition rec_16_dev :: mm2dev_t where
  "rec_16_dev = \<lparr>host = False, bytes = 16, h_adrs = 0x1000, d_adrs = 0x7000, ranged = False\<rparr>"

definition st_16_dev :: mm_state where
  "st_16_dev = \<lparr>mng = Some [(0x1000, rec_16_dev)], xs_shift = 0, xs_shifted = False,
                calls = [okMemAlloc 16, okMemcpyHtoDAsync 0x7000 0x1000 16 0]\<rparr>"

text \<open>
  The state after \<open>Insert(0x1000, 8, 1)\<close> on a fresh manager when XS is set: the block
  is filed \<open>2^48\<close> elements (\<open>2^51\<close> bytes) above the caller's address.
\<close>

definition rec_xs :: mm2dev_t where
  "rec_xs = \<lparr>host = True, bytes = 8, h_adrs = 0x8000000001000, d_adrs = 0, ranged = False\<rparr>"

definition st_xs :: mm_state where
  "st_xs = \<lparr>mng = Some [(0x8000000001000, rec_xs)], xs_shift = 0x1000000000000,
            xs_shifted = True, calls = []\<rparr>"

section \<open>Basic facts\<close>

lemma entry_SomeD: "entry st a = Some r \<Longrightarrow> \<exists>m. mng st = Some m \<and> map_of m a = Some r"
  by (auto simp: entry_def split: option.splits)

lemma mng_same: "mng st = Some m \<Longrightarrow> st\<lparr>mng := Some m\<rparr> = st"
  by (cases st) simp

lemma Known_exact:
  "mng st = Some m \<Longrightarrow> mm_Known cfg st a False = Inr (map_of m a \<noteq> None, st)"
  by (simp add: mm_Known.simps)

lemma Known_hit:
  "mng st = Some m \<Longrightarrow> map_of m a = Some r \<Longrightarrow> mm_Known cfg st a b = Inr (True, st)"
  by (simp add: mm_Known.simps)

lemma subscript_hit: "map_of m k = Some r \<Longrightarrow> subscript m k = (r, m)"
  by (simp add: subscript_def)

lemma subscript_miss:
  "map_of m k = None \<Longrightarrow> subscript m k = (mm2dev_zero, m @ [(k, mm2dev_zero)])"
  by (simp add: subscript_def)

lemma update_fresh:
  "map_of m k = None \<Longrightarrow> AList.update k v (m @ [(k, z)]) = m @ [(k, v)]"
  by (induction m) (auto split: if_splits)

lemma Insert_st_16: "mm_Insert cfg_host initial 0x1000 16 1 False = Inr (0x1000, st_16)"
  by (simp add: mm_Insert.simps mm_Known.simps mm_Setup_def initial_def cfg_host_def
      subscript_def mm2dev_zero_def st_16_def rec_16_def)

lemma Adrs_st_16_dev: "mm_Adrs cfg_dev st_16 0x1000 = Inr (0x7000, st_16_dev)"
  by (simp add: mm_Adrs_def mm_Known.simps st_16_def rec_16_def st_16_dev_def rec_16_dev_def
      cfg_dev_def subscript_def alloc_7000_def)

lemma Insert_st_xs: "mm_Insert cfg_xs initial 0x1000 8 1 False = Inr (0x8000000001000, st_xs)"
  by (simp add: mm_Insert.simps mm_Known.simps mm_Setup_def initial_def cfg_xs_def
      subscript_def mm2dev_zero_def st_xs_def rec_xs_def)

lemma map_of_update: "map_of (AList.update k v m) = (map_of m)(k \<mapsto> v)"
  by (rule update_conv')

text \<open>Adrs, Push and Pull on an address that is a key of the registry.\<close>

lemma Adrs_registered:
  assumes "mng st = Some m" "map_of m p = Some r"
  shows "mm_Adrs cfg st p =
     (if host r \<and> \<not> Cuda cfg then Inr (xsShift st (h_adrs r), st)
      else if d_adrs r \<noteq> 0 then Inr (d_adrs r, st)
      else if \<not> nvcc cfg then Inl MfemError
      else if 0 < bytes r then
        Inr (device_alloc cfg (calls st) (bytes r),
             st\<lparr>mng := Some (AList.update p
                    (r\<lparr>d_adrs := device_alloc cfg (calls st) (bytes r), host := False\<rparr>) m),
                calls := calls st @ [okMemAlloc (bytes r),
                   okMemcpyHtoDAsync (device_alloc cfg (calls st) (bytes r)) (h_adrs r)
                     (bytes r) (cfg_Stream cfg)]\<rparr>)
      else
        Inr (0, st\<lparr>mng := Some (AList.update p (r\<lparr>d_adrs := 0, host := False\<rparr>) m),
                   calls := calls st @ [okMemcpyHtoDAsync 0 (h_adrs r) (bytes r)
                     (cfg_Stream cfg)]\<rparr>))"
  using assms by (simp add: mm_Adrs_def Known_hit subscript_hit mng_same)

lemma Push_registered:
  assumes "mng st = Some m" "map_of m p = Some r"
  shows "mm_Push cfg st p =
     Inr (if host r then st
          else st\<lparr>calls := calls st @ [okMemcpyHtoD (d_adrs r) (h_adrs r) (bytes r)]\<rparr>)"
  using assms by (simp add: mm_Push_def Known_exact subscript_hit mng_same)

lemma Pull_registered:
  assumes "mng st = Some m" "map_of m p = Some r"
  shows "mm_Pull cfg st p =
     Inr (if host r then st
          else st\<lparr>calls := calls st @ [okMemcpyDtoH (h_adrs r) (d_adrs r) (bytes r)]\<rparr>)"
  using assms by (simp add: mm_Pull_def Known_exact subscript_hit mng_same)

text \<open>What a successful Insert or Erase has done.\<close>

lemma map_of_delete: "map_of (AList.delete k m) = (map_of m)(k := None)"
  by (rule delete_conv')

lemma map_of_snoc:
  "map_of (m @ [(k, v)]) a =
     (case map_of m a of Some x \<Rightarrow> Some x | None \<Rightarrow> if a = k then Some v else None)"
  by (simp add: map_add_def split: option.splits)

lemma Insert_fresh:
  assumes "mng st = Some m" "map_of m (p + 8 * xs_shift st) = None"
  shows "mm_Insert cfg st p n s rg =
     Inr (p + 8 * xs_shift st,
          st\<lparr>mng := Some (m @ [(p + 8 * xs_shift st,
                 \<lparr>host = True, bytes = n * s, h_adrs = p + 8 * xs_shift st, d_adrs = 0,
                    ranged = rg\<rparr>)])\<rparr>)"
  using assms
  by (simp add: mm_Insert.simps Known_exact subscript_miss update_fresh mm2dev_zero_def)

lemma Insert_result:
  assumes "mm_Insert cfg st p n s rg = Inr (q, st')"
  shows "q = p + 8 * xs_shift st'
     \<and> xs_shifted st' = (if mng st = None then getenv_XS cfg else xs_shifted st)
     \<and> xs_shift st' = (if mng st = None \<and> getenv_XS cfg then 2 ^ 48 else xs_shift st)
     \<and> entry st' q = Some \<lparr>host = True, bytes = n * s, h_adrs = q, d_adrs = 0, ranged = rg\<rparr>"
proof (cases "mng st")
  case None
  then show ?thesis using assms
    by (auto simp: mm_Insert.simps [of cfg st] mm_Setup_def Known_exact subscript_miss
        update_fresh mm2dev_zero_def entry_def)
next
  case (Some m)
  show ?thesis
  proof (cases "map_of m (p + 8 * xs_shift st)")
    case None
    with assms Some show ?thesis
      by (auto simp: Insert_fresh entry_def map_of_snoc simp del: map_of_append)
  next
    case (Some r)
    with assms \<open>mng st = Some m\<close> show ?thesis
      by (simp add: mm_Insert.simps Known_exact subscript_hit split: if_splits)
  qed
qed

lemma Erase_result:
  assumes "mm_Erase cfg st p = Inr (q, st')"
  shows "q = xsShift st p \<and> entry st p \<noteq> None \<and> entry st' p = None
         \<and> (\<forall>a. a \<noteq> p \<longrightarrow> entry st' a = entry st a)"
proof (cases "mng st")
  case None
  with assms show ?thesis by (simp add: mm_Erase_def mm_Known.simps)
next
  case (Some m)
  with assms show ?thesis
    by (auto simp: mm_Erase_def Known_exact entry_def map_of_delete split: if_splits)
qed

text \<open>The loop of Range finds the first record its test accepts.\<close>

lemma Range_loop_find:
  "Range_loop m adrs =
     (case List.find (\<lambda>e. Range_accepts (snd e) adrs) m of
        None \<Rightarrow> 0
      | Some e \<Rightarrow> h_adrs (snd e))"
  by (induction m) (auto simp: Range_accepts_def)

lemma find_first:
  "\<forall>e\<in>set pre. \<not> P e \<Longrightarrow> P x \<Longrightarrow> List.find P (pre @ x # post) = Some x"
  by (induction pre) auto

lemma unat_scaled_end:
  fixes b n :: "64 word"
  assumes "unat b + 8 * unat n < 2 ^ 64"
  shows "unat (b + 8 * n) = unat b + 8 * unat n"
proof -
  have "unat (8 * n) = 8 * unat n"
    using assms by (simp add: unat_word_ariths)
  moreover from this assms have "unat (b + 8 * n) = unat b + unat (8 * n)"
    by (simp add: unat_word_ariths)
  ultimately show ?thesis by simp
qed

lemma accepts_le: "Range_accepts r adrs \<Longrightarrow> h_adrs r \<le> adrs"
  by (simp add: Range_accepts_def not_less)

lemma in_extent_accepts:
  assumes "in_extent r adrs" "unat (h_adrs r) + 8 * unat (bytes r) < 2 ^ 64"
  shows "Range_accepts r adrs"
  using assms
  by (simp add: Range_accepts_def in_extent_def word_le_nat_alt word_less_nat_alt
      unat_scaled_end not_less)

lemma Range_unregistered:
  assumes "mng st = Some m" "map_of m probe = None"
  shows "mm_Range st probe =
     Inr (case List.find (\<lambda>e. Range_accepts (snd e) probe) m of
            None \<Rightarrow> 0
          | Some e \<Rightarrow> h_adrs (snd e))"
  using assms by (simp add: mm_Range_def Range_loop_find)

lemma unat_plus_small:
  fixes b k n :: "64 word"
  assumes "k < n" "unat b + 8 * unat n < 2 ^ 64"
  shows "unat (b + k) = unat b + unat k"
proof -
  from assms(1) have "unat k < unat n" by (simp add: word_less_nat_alt)
  with assms(2) have "unat b + unat k < 2 ^ 64" by simp
  then show ?thesis by (simp add: unat_word_ariths)
qed

section \<open>Known as a query\<close>

text \<open>
  C10.  \<open>Known(address, insert_if_in_range = false)\<close> is a pure query: it returns
  whether the address is a key of the registry and hands back the state it was given,
  registry included, also for an address inside the extent of a registered block.
\<close>

theorem Known_no_insert_pure:
  assumes "mng st = Some m"
  shows "mm_Known cfg st adrs False = Inr (adrs \<in> fst ` set m, st)"
  using assms by (simp add: Known_exact map_of_eq_None_iff)

theorem Known_no_insert_pure_witness:
  "mng st_16 = Some [(0x1000, rec_16)]
   \<and> mm_Known cfg_host st_16 0x1008 False = Inr (False, st_16)
   \<and> mm_Known cfg_host st_16 0x1000 False = Inr (True, st_16)"
proof -
  have m: "mng st_16 = Some [(0x1000, rec_16)]"
    by (simp add: st_16_def)
  show ?thesis
    using m Known_no_insert_pure [OF m, of cfg_host "0x1008"]
      Known_no_insert_pure [OF m, of cfg_host "0x1000"]
    by simp
qed

section \<open>Push\<close>

text \<open>
  C8.  For a registered address, Push makes no backend call when the record's host flag
  is set (the state comes back as it was), and exactly one call, a host-to-device copy
  of the record's \<open>bytes\<close>, when it is not.  On an address that is not registered Push
  dies.
\<close>

theorem Push_copies:
  "(entry st p = Some r \<and> host r \<longrightarrow> mm_Push cfg st p = Inr st)
   \<and> (entry st p = Some r \<and> \<not> host r \<longrightarrow>
        mm_Push cfg st p =
          Inr (st\<lparr>calls := calls st @ [okMemcpyHtoD (d_adrs r) (h_adrs r) (bytes r)]\<rparr>))
   \<and> (entry st p = None \<longrightarrow>
        mm_Push cfg st p = Inl (if mng st = None then NullDeref else AssertFailed))"
proof (intro conjI impI)
  assume "entry st p = Some r \<and> host r"
  then obtain m where "mng st = Some m" "map_of m p = Some r" "host r"
    by (auto dest: entry_SomeD)
  then show "mm_Push cfg st p = Inr st"
    by (simp add: mm_Push_def Known_exact subscript_hit mng_same)
next
  assume "entry st p = Some r \<and> \<not> host r"
  then obtain m where "mng st = Some m" "map_of m p = Some r" "\<not> host r"
    by (auto dest: entry_SomeD)
  then show "mm_Push cfg st p =
      Inr (st\<lparr>calls := calls st @ [okMemcpyHtoD (d_adrs r) (h_adrs r) (bytes r)]\<rparr>)"
    by (simp add: mm_Push_def Known_exact subscript_hit mng_same)
next
  assume "entry st p = None"
  then show "mm_Push cfg st p = Inl (if mng st = None then NullDeref else AssertFailed)"
    by (auto simp: mm_Push_def entry_def mm_Known.simps split: option.splits)
qed

theorem Push_copies_witness:
  "mm_Push cfg_dev st_16 0x1000 = Inr st_16
   \<and> mm_Push cfg_dev st_16_dev 0x1000 =
       Inr (st_16_dev\<lparr>calls := calls st_16_dev @ [okMemcpyHtoD 0x7000 0x1000 16]\<rparr>)
   \<and> mm_Push cfg_dev st_16 0x2000 = Inl AssertFailed"
proof -
  have a: "entry st_16 0x1000 = Some rec_16 \<and> host rec_16"
    by (simp add: entry_def st_16_def rec_16_def)
  have b: "entry st_16_dev 0x1000 = Some rec_16_dev \<and> \<not> host rec_16_dev"
    by (simp add: entry_def st_16_dev_def rec_16_dev_def)
  have c: "entry st_16 0x2000 = None" "mng st_16 \<noteq> None"
    by (simp_all add: entry_def st_16_def)
  show ?thesis
    using a b c Push_copies [of st_16 "0x1000" rec_16 cfg_dev]
      Push_copies [of st_16_dev "0x1000" rec_16_dev cfg_dev]
      Push_copies [of st_16 "0x2000" rec_16 cfg_dev]
    by (simp add: rec_16_dev_def)
qed

section \<open>Fatal misuse of Erase and Insert\<close>

text \<open>
  C7.  Erase on an address with no registry entry dies (the trap, or the null registry
  before Setup).  Insert on an address that is registered and not marked ranged dies in
  the trap; the address Insert looks at is the one it files the block under, the
  caller's address moved up by \<open>xs_shift\<close> elements, which is the caller's address
  itself while the shifter is off.  Neither returns.
\<close>

theorem Erase_Insert_misuse_fatal:
  "(entry st p = None \<longrightarrow>
      mm_Erase cfg st p = Inl (if mng st = None then NullDeref else Trap))
   \<and> (entry st (p + 8 * xs_shift st) = Some r \<and> \<not> ranged r \<longrightarrow>
        mm_Insert cfg st p n s rg = Inl Trap)"
proof (intro conjI impI)
  assume "entry st p = None"
  then show "mm_Erase cfg st p = Inl (if mng st = None then NullDeref else Trap)"
    by (auto simp: mm_Erase_def entry_def mm_Known.simps split: option.splits)
next
  assume "entry st (p + 8 * xs_shift st) = Some r \<and> \<not> ranged r"
  then obtain m where "mng st = Some m" "map_of m (p + 8 * xs_shift st) = Some r" "\<not> ranged r"
    by (auto dest: entry_SomeD)
  then show "mm_Insert cfg st p n s rg = Inl Trap"
    by (simp add: mm_Insert.simps Known_exact subscript_hit)
qed

theorem Erase_Insert_misuse_fatal_witness:
  "mm_Erase cfg_host st_16 0x2000 = Inl Trap
   \<and> mm_Insert cfg_host st_16 0x1000 4 4 False = Inl Trap"
proof -
  have a: "entry st_16 0x2000 = None" "mng st_16 \<noteq> None"
    by (simp_all add: entry_def st_16_def)
  have b: "entry st_16 (0x1000 + 8 * xs_shift st_16) = Some rec_16 \<and> \<not> ranged rec_16"
    by (simp add: entry_def st_16_def rec_16_def)
  show ?thesis
    using a b Erase_Insert_misuse_fatal [of st_16 "0x2000" cfg_host rec_16 4 4 False]
      Erase_Insert_misuse_fatal [of st_16 "0x1000" cfg_host rec_16 4 4 False]
    by simp
qed

section \<open>Adrs: resolving an address\<close>

text \<open>
  C2.  Device run, \<open>p\<close> registered.  Say the first \<open>Adrs(p)\<close> returned \<open>d\<close> and left the
  record materialised, that is with a device address that is not null.  Then the second
  \<open>Adrs(p)\<close> returns the same \<open>d\<close> and hands the state back as it was: no allocation, no
  copy.  When the first call was the one that materialised the record (its device
  address was null before), that call made one allocation and one host-to-device copy,
  so the two calls together copy exactly once.
\<close>

theorem Adrs_twice:
  assumes cuda: "Cuda cfg"
    and reg: "entry st p = Some r"
    and first: "mm_Adrs cfg st p = Inr (d, st1)"
    and r1: "entry st1 p = Some r1"
    and mat: "d_adrs r1 \<noteq> 0"
  shows "mm_Adrs cfg st1 p = Inr (d, st1)
         \<and> calls st1 = calls st @
             (if d_adrs r = 0
              then [okMemAlloc (bytes r),
                    okMemcpyHtoDAsync d (h_adrs r) (bytes r) (cfg_Stream cfg)]
              else [])"
proof -
  from reg obtain m where m: "mng st = Some m" "map_of m p = Some r"
    by (auto dest: entry_SomeD)
  from r1 obtain m1 where m1: "mng st1 = Some m1" "map_of m1 p = Some r1"
    by (auto dest: entry_SomeD)
  note A = Adrs_registered [OF m, of cfg]
  show ?thesis
  proof (cases "d_adrs r = 0")
    case False
    with first cuda A have "d = d_adrs r" "st1 = st" by simp_all
    with False cuda m show ?thesis
      by (simp add: Adrs_registered [OF m])
  next
    case True
    show ?thesis
    proof (cases "0 < bytes r")
      case False
      with True first cuda A m1 have "d_adrs r1 = 0"
        by (auto simp: map_of_update split: if_splits)
      with mat show ?thesis by simp
    next
      case b: True
      with True first cuda A
      have d: "d = device_alloc cfg (calls st) (bytes r)"
        and st1: "st1 = st\<lparr>mng := Some (AList.update p (r\<lparr>d_adrs := d, host := False\<rparr>) m),
                calls := calls st @ [okMemAlloc (bytes r),
                   okMemcpyHtoDAsync d (h_adrs r) (bytes r) (cfg_Stream cfg)]\<rparr>"
        by (auto split: if_splits)
      from st1 m1
      have "map_of (AList.update p (r\<lparr>d_adrs := d, host := False\<rparr>) m) p = Some r1"
        by simp
      then have r1_eq: "r1 = r\<lparr>d_adrs := d, host := False\<rparr>"
        by (simp add: map_of_update)
      with mat have "d \<noteq> 0" by simp
      with cuda r1_eq have "mm_Adrs cfg st1 p = Inr (d, st1)"
        by (simp add: Adrs_registered [OF m1])
      with True st1 show ?thesis by simp
    qed
  qed
qed

theorem Adrs_twice_witness:
  "Cuda cfg_dev \<and> entry st_16 0x1000 = Some rec_16
   \<and> mm_Adrs cfg_dev st_16 0x1000 = Inr (0x7000, st_16_dev)
   \<and> entry st_16_dev 0x1000 = Some rec_16_dev \<and> d_adrs rec_16_dev \<noteq> 0
   \<and> mm_Adrs cfg_dev st_16_dev 0x1000 = Inr (0x7000, st_16_dev)
   \<and> calls st_16_dev = calls st_16 @ [okMemAlloc 16, okMemcpyHtoDAsync 0x7000 0x1000 16 0]"
proof -
  have a: "Cuda cfg_dev" by (simp add: cfg_dev_def)
  have b: "entry st_16 0x1000 = Some rec_16" by (simp add: entry_def st_16_def)
  have c: "entry st_16_dev 0x1000 = Some rec_16_dev" by (simp add: entry_def st_16_dev_def)
  have d: "d_adrs rec_16_dev \<noteq> 0" by (simp add: rec_16_dev_def)
  have e: "cfg_Stream cfg_dev = 0" by (simp add: cfg_dev_def)
  show ?thesis
    using a b c d e Adrs_st_16_dev Adrs_twice [OF a b Adrs_st_16_dev c d]
    by (simp add: rec_16_def)
qed

text \<open>
  C4, as stated, fails once the shifter is on: in a host-only run Adrs hands back the
  record's host address moved down by the shift, not the address it was given.  Here
  the block of \<open>0x1000\<close> is filed under \<open>0x8000000001000\<close>, and resolving that address
  returns \<open>0x1000\<close>.  It also fails for a record whose host flag is clear (one a
  device run has resolved): the early return is not taken and the device address comes
  back.
\<close>

theorem Adrs_host_mode_counterexample:
  "mm_Insert cfg_xs initial 0x1000 8 1 False = Inr (0x8000000001000, st_xs)
   \<and> mm_Adrs cfg_xs st_xs 0x8000000001000 = Inr (0x1000, st_xs)
   \<and> (0x1000 :: addr) \<noteq> 0x8000000001000
   \<and> mm_Adrs cfg_host st_16_dev 0x1000 = Inr (0x7000, st_16_dev)"
proof -
  have "mm_Adrs cfg_xs st_xs 0x8000000001000 = Inr (0x1000, st_xs)"
    by (simp add: mm_Adrs_def mm_Known.simps st_xs_def rec_xs_def cfg_xs_def subscript_def
        xsShift_def)
  moreover have "mm_Adrs cfg_host st_16_dev 0x1000 = Inr (0x7000, st_16_dev)"
    by (simp add: mm_Adrs_def mm_Known.simps st_16_dev_def rec_16_dev_def cfg_host_def
        subscript_def)
  ultimately show ?thesis
    by (simp add: Insert_st_xs)
qed

text \<open>
  C4, amended.  Device execution disabled, \<open>p\<close> registered, the record's host flag set
  (as Insert leaves it): \<open>Adrs(p)\<close> returns the record's host address, moved down by
  the shift when the shifter is on and as it is otherwise, and hands the state back
  unchanged: no device mirror, no backend call.  Insert stores the key as host address,
  so with the shifter off the result is \<open>p\<close>.
\<close>

theorem Adrs_host_mode:
  assumes "\<not> Cuda cfg" "entry st p = Some r" "host r"
  shows "mm_Adrs cfg st p =
           Inr (if xs_shifted st then h_adrs r - 8 * xs_shift st else h_adrs r, st)
       \<and> (\<not> xs_shifted st \<and> h_adrs r = p \<longrightarrow> mm_Adrs cfg st p = Inr (p, st))"
proof -
  from assms(2) obtain m where m: "mng st = Some m" "map_of m p = Some r"
    by (auto dest: entry_SomeD)
  show ?thesis
    using assms(1,3) by (simp add: Adrs_registered [OF m] xsShift_def)
qed

theorem Adrs_host_mode_witness:
  "mm_Adrs cfg_host st_16 0x1000 = Inr (0x1000, st_16)
   \<and> mm_Adrs cfg_xs st_xs 0x8000000001000 = Inr (0x1000, st_xs)"
proof -
  have a: "\<not> Cuda cfg_host" "\<not> Cuda cfg_xs" by (simp_all add: cfg_host_def cfg_xs_def)
  have b: "entry st_16 0x1000 = Some rec_16" "host rec_16"
    by (simp_all add: entry_def st_16_def rec_16_def)
  have c: "entry st_xs 0x8000000001000 = Some rec_xs" "host rec_xs"
    by (simp_all add: entry_def st_xs_def rec_xs_def)
  show ?thesis
    using Adrs_host_mode [OF a(1) b] Adrs_host_mode [OF a(2) c]
    by (simp add: st_16_def st_xs_def rec_16_def rec_xs_def)
qed

section \<open>Who changes the host flag\<close>

text \<open>
  C3, as stated, fails: the first \<open>Adrs\<close> of a device run clears the host flag of the
  record it materialises (\<open>mm2dev.host = false\<close>, "now this address is GPU born").
\<close>

theorem host_flag_counterexample:
  "entry st_16 0x1000 = Some rec_16 \<and> host rec_16
   \<and> mm_Adrs cfg_dev st_16 0x1000 = Inr (0x7000, st_16_dev)
   \<and> entry st_16_dev 0x1000 = Some rec_16_dev \<and> \<not> host rec_16_dev"
proof -
  have "entry st_16 0x1000 = Some rec_16" "entry st_16_dev 0x1000 = Some rec_16_dev"
    by (simp_all add: entry_def st_16_def st_16_dev_def)
  moreover have "host rec_16" "\<not> host rec_16_dev"
    by (simp_all add: rec_16_def rec_16_dev_def)
  ultimately show ?thesis
    using Adrs_st_16_dev by simp
qed

text \<open>
  C3, amended.  For a registered address, Push and Pull return and leave the registry,
  host flags included, exactly as it was.  Adrs is the one operation that changes the
  flag, and only from set to clear: after \<open>Adrs(p)\<close> the flag of \<open>p\<close> is set iff it was
  set before and the call did not materialise the record (host-only run, or a device
  address already there); the entries of all other addresses are untouched.
\<close>

theorem host_flag_frame:
  assumes reg: "entry st p = Some r"
  shows "(\<exists>st'. mm_Push cfg st p = Inr st' \<and> mng st' = mng st)
       \<and> (\<exists>st'. mm_Pull cfg st p = Inr st' \<and> mng st' = mng st)
       \<and> (\<forall>a st'. mm_Adrs cfg st p = Inr (a, st') \<longrightarrow>
            (\<exists>r'. entry st' p = Some r'
                   \<and> (host r' \<longleftrightarrow> host r \<and> (\<not> Cuda cfg \<or> d_adrs r \<noteq> 0)))
            \<and> (\<forall>q. q \<noteq> p \<longrightarrow> entry st' q = entry st q))"
proof -
  from reg obtain m where m: "mng st = Some m" "map_of m p = Some r"
    by (auto dest: entry_SomeD)
  have push: "\<exists>st'. mm_Push cfg st p = Inr st' \<and> mng st' = mng st"
    by (simp add: Push_registered [OF m])
  have pull: "\<exists>st'. mm_Pull cfg st p = Inr st' \<and> mng st' = mng st"
    by (simp add: Pull_registered [OF m])
  have adrs: "(\<exists>r'. entry st' p = Some r'
                   \<and> (host r' \<longleftrightarrow> host r \<and> (\<not> Cuda cfg \<or> d_adrs r \<noteq> 0)))
            \<and> (\<forall>q. q \<noteq> p \<longrightarrow> entry st' q = entry st q)"
    if "mm_Adrs cfg st p = Inr (a, st')" for a st'
    using that m reg
    by (auto simp: Adrs_registered [OF m] entry_def map_of_update split: if_splits)
  from push pull adrs show ?thesis by blast
qed

theorem host_flag_frame_witness:
  "entry st_16 0x1000 = Some rec_16
   \<and> (\<exists>st'. mm_Push cfg_dev st_16 0x1000 = Inr st' \<and> mng st' = mng st_16)
   \<and> (\<exists>st'. mm_Pull cfg_dev st_16 0x1000 = Inr st' \<and> mng st' = mng st_16)
   \<and> mm_Adrs cfg_dev st_16 0x1000 = Inr (0x7000, st_16_dev)
   \<and> (\<exists>r'. entry st_16_dev 0x1000 = Some r' \<and> \<not> host r')"
proof -
  have b: "entry st_16 0x1000 = Some rec_16" by (simp add: entry_def st_16_def)
  have c: "Cuda cfg_dev" "d_adrs rec_16 = 0" by (simp_all add: cfg_dev_def rec_16_def)
  from host_flag_frame [OF b, of cfg_dev] Adrs_st_16_dev c
  have "\<exists>r'. entry st_16_dev 0x1000 = Some r' \<and> \<not> host r'"
    by auto
  with b host_flag_frame [OF b, of cfg_dev] Adrs_st_16_dev show ?thesis
    by blast
qed

section \<open>Insert, then Known\<close>

text \<open>
  C6, as stated, fails once the shifter is on: Insert files the block under the shifted
  address and Known looks its argument up as it is, so \<open>Known(p)\<close> right after
  \<open>Insert(p, n, s)\<close> is false.
\<close>

theorem Insert_then_Known_counterexample:
  "mm_Insert cfg_xs initial 0x1000 8 1 False = Inr (0x8000000001000, st_xs)
   \<and> mm_Known cfg_xs st_xs 0x1000 False = Inr (False, st_xs)"
proof -
  have "mm_Known cfg_xs st_xs 0x1000 False = Inr (False, st_xs)"
    by (simp add: mm_Known.simps st_xs_def)
  then show ?thesis by (simp add: Insert_st_xs)
qed

text \<open>
  C6, amended.  If the address Insert files \<open>p\<close> under (\<open>p\<close> moved up by \<open>xs_shift\<close>
  elements; \<open>p\<close> itself with the shifter off) is not registered, then
  \<open>Insert(p, n, s)\<close> returns, its result \<open>q\<close> is that address, and right after it
  \<open>Known(q)\<close> is true and the record of \<open>q\<close> has \<open>bytes = n * s\<close> (the product in
  \<open>size_t\<close>).  Before Setup nothing is registered, and Insert runs Setup itself.
\<close>

theorem Insert_registers:
  assumes "entry st (p + 8 * xs_shift st) = None"
  shows "\<exists>q st' r. mm_Insert cfg st p n s rg = Inr (q, st')
            \<and> q = p + 8 * xs_shift st'
            \<and> mm_Known cfg st' q False = Inr (True, st')
            \<and> entry st' q = Some r \<and> bytes r = n * s"
proof -
  have "\<exists>q st'. mm_Insert cfg st p n s rg = Inr (q, st')"
  proof (cases "mng st")
    case None
    then show ?thesis
      by (simp add: mm_Insert.simps [of cfg st] mm_Setup_def Known_exact subscript_miss)
  next
    case (Some m)
    with assms show ?thesis by (simp add: Insert_fresh entry_def)
  qed
  then obtain q st' where ins: "mm_Insert cfg st p n s rg = Inr (q, st')" by blast
  note R = Insert_result [OF ins]
  from R obtain m' where "mng st' = Some m'" "map_of m' q \<noteq> None"
    by (auto dest!: entry_SomeD)
  then have "mm_Known cfg st' q False = Inr (True, st')"
    by (simp add: Known_exact)
  with ins R show ?thesis by auto
qed


theorem Insert_registers_witness:
  "entry initial (0x1000 + 8 * xs_shift initial) = None
   \<and> mm_Insert cfg_host initial 0x1000 16 1 False = Inr (0x1000, st_16)
   \<and> mm_Known cfg_host st_16 0x1000 False = Inr (True, st_16)
   \<and> entry st_16 0x1000 = Some rec_16 \<and> bytes rec_16 = 16 * 1
   \<and> mm_Insert cfg_xs initial 0x1000 8 1 False = Inr (0x8000000001000, st_xs)
   \<and> mm_Known cfg_xs st_xs 0x8000000001000 False = Inr (True, st_xs)
   \<and> entry st_xs 0x8000000001000 = Some rec_xs \<and> bytes rec_xs = 8 * 1"
proof -
  have a: "entry initial (0x1000 + 8 * xs_shift initial) = None"
    by (simp add: entry_def initial_def)
  have b: "bytes rec_16 = 16 * 1" "bytes rec_xs = 8 * 1"
    by (simp_all add: rec_16_def rec_xs_def)
  from Insert_registers [OF a, of cfg_host 16 1 False] Insert_st_16
  have "mm_Known cfg_host st_16 0x1000 False = Inr (True, st_16)"
    by auto
  moreover from Insert_registers [OF a, of cfg_xs 8 1 False] Insert_st_xs
  have "mm_Known cfg_xs st_xs 0x8000000001000 False = Inr (True, st_xs)"
    by auto
  moreover have "entry st_16 0x1000 = Some rec_16" "entry st_xs 0x8000000001000 = Some rec_xs"
    by (simp_all add: entry_def st_16_def st_xs_def)
  ultimately show ?thesis
    using a b Insert_st_16 Insert_st_xs by simp
qed

section \<open>The address shifter\<close>

text \<open>
  C9, as stated, fails: the operations do not all move their address by one constant
  before using it as key.  Insert files \<open>0x1000\<close> under \<open>0x1000 + 2^51\<close> and returns
  that address; Erase takes its argument as the key as it is (so erasing \<open>0x1000\<close>
  hits the trap, and erasing the shifted address succeeds) and returns the key moved
  down by \<open>2^51\<close>.
\<close>

theorem shifter_counterexample:
  "mm_Insert cfg_xs initial 0x1000 8 1 False = Inr (0x8000000001000, st_xs)
   \<and> mm_Erase cfg_xs st_xs 0x1000 = Inl Trap
   \<and> mm_Erase cfg_xs st_xs 0x8000000001000 = Inr (0x1000, st_xs\<lparr>mng := Some []\<rparr>)"
proof -
  have "mm_Erase cfg_xs st_xs 0x1000 = Inl Trap"
    by (simp add: mm_Erase_def mm_Known.simps st_xs_def)
  moreover have "mm_Erase cfg_xs st_xs 0x8000000001000 = Inr (0x1000, st_xs\<lparr>mng := Some []\<rparr>)"
    by (simp add: mm_Erase_def mm_Known.simps st_xs_def xsShift_def)
  ultimately show ?thesis by (simp add: Insert_st_xs)
qed

text \<open>
  C9, amended.  Setup switches the shifter on iff XS is set, with \<open>xs_shift = 2^48\<close>
  elements, which is \<open>2^51\<close> bytes.  Shifter on: Insert moves the caller's address
  up by \<open>2^51\<close>, files the block under the result and returns it; Erase uses its
  argument as the key unchanged and returns it moved down by \<open>2^51\<close>, as \<open>xsShift\<close>
  does for every address.  Shifter off: \<open>xsShift\<close> is the identity, Insert files and
  returns the caller's address, Erase returns its argument.
\<close>

theorem shifter_offsets:
  assumes "mng st \<noteq> None"
  shows
   "(mm_Setup cfg st0 = Inr st1 \<and> xs_shift st0 = 0 \<longrightarrow>
       (if getenv_XS cfg then xs_shifted st1 \<and> xs_shift st1 = 2 ^ 48
        else \<not> xs_shifted st1 \<and> xs_shift st1 = 0))
    \<and> (\<not> xs_shifted st \<and> xs_shift st = 0 \<longrightarrow>
         xsShift st a = a
       \<and> (\<forall>q st'. mm_Insert cfg st p n s rg = Inr (q, st') \<longrightarrow>
            q = p \<and> entry st' p \<noteq> None)
       \<and> (\<forall>q st'. mm_Erase cfg st p = Inr (q, st') \<longrightarrow>
            q = p \<and> entry st p \<noteq> None \<and> entry st' p = None))
    \<and> (xs_shifted st \<and> xs_shift st = 2 ^ 48 \<longrightarrow>
         xsShift st a = a - 2 ^ 51
       \<and> (\<forall>q st'. mm_Insert cfg st p n s rg = Inr (q, st') \<longrightarrow>
            q = p + 2 ^ 51 \<and> entry st' (p + 2 ^ 51) \<noteq> None)
       \<and> (\<forall>q st'. mm_Erase cfg st p = Inr (q, st') \<longrightarrow>
            q = p - 2 ^ 51 \<and> entry st p \<noteq> None \<and> entry st' p = None))"
proof (intro conjI impI allI)
  assume "mm_Setup cfg st0 = Inr st1 \<and> xs_shift st0 = 0"
  then show "if getenv_XS cfg then xs_shifted st1 \<and> xs_shift st1 = 2 ^ 48
        else \<not> xs_shifted st1 \<and> xs_shift st1 = 0"
    by (auto simp: mm_Setup_def split: if_splits)
next
  assume "\<not> xs_shifted st \<and> xs_shift st = 0"
  then show "xsShift st a = a" by (simp add: xsShift_def)
next
  fix q st'
  assume off: "\<not> xs_shifted st \<and> xs_shift st = 0"
    and ins: "mm_Insert cfg st p n s rg = Inr (q, st')"
  from Insert_result [OF ins] off assms show "q = p" by simp
  with Insert_result [OF ins] show "entry st' p \<noteq> None" by simp
next
  fix q st'
  assume off: "\<not> xs_shifted st \<and> xs_shift st = 0"
    and er: "mm_Erase cfg st p = Inr (q, st')"
  from Erase_result [OF er] off show "q = p" by (simp add: xsShift_def)
  from Erase_result [OF er] show "entry st p \<noteq> None" "entry st' p = None" by simp_all
next
  assume "xs_shifted st \<and> xs_shift st = 2 ^ 48"
  then show "xsShift st a = a - 2 ^ 51" by (simp add: xsShift_def)
next
  fix q st'
  assume on: "xs_shifted st \<and> xs_shift st = 2 ^ 48"
    and ins: "mm_Insert cfg st p n s rg = Inr (q, st')"
  from Insert_result [OF ins] on assms show "q = p + 2 ^ 51" by simp
  with Insert_result [OF ins] show "entry st' (p + 2 ^ 51) \<noteq> None" by simp
next
  fix q st'
  assume on: "xs_shifted st \<and> xs_shift st = 2 ^ 48"
    and er: "mm_Erase cfg st p = Inr (q, st')"
  from Erase_result [OF er] on show "q = p - 2 ^ 51" by (simp add: xsShift_def)
  from Erase_result [OF er] show "entry st p \<noteq> None" "entry st' p = None" by simp_all
qed

theorem shifter_offsets_witness:
  "mm_Setup cfg_xs initial =
     Inr (initial\<lparr>mng := Some [], xs_shifted := True, xs_shift := 2 ^ 48\<rparr>)
   \<and> mng st_xs \<noteq> None \<and> xs_shifted st_xs \<and> xs_shift st_xs = 2 ^ 48
   \<and> xsShift st_xs 0x8000000001000 = 0x1000
   \<and> mm_Insert cfg_xs st_xs 0x2000 4 4 False = Inr (0x8000000002000,
        st_xs\<lparr>mng := Some [(0x8000000001000, rec_xs),
          (0x8000000002000, \<lparr>host = True, bytes = 16, h_adrs = 0x8000000002000,
                              d_adrs = 0, ranged = False\<rparr>)]\<rparr>)
   \<and> mm_Erase cfg_xs st_xs 0x8000000001000 = Inr (0x1000, st_xs\<lparr>mng := Some []\<rparr>)
   \<and> mng st_16 \<noteq> None \<and> \<not> xs_shifted st_16 \<and> xs_shift st_16 = 0
   \<and> xsShift st_16 0x1000 = 0x1000
   \<and> mm_Insert cfg_host st_16 0x2000 4 4 False = Inr (0x2000,
        st_16\<lparr>mng := Some [(0x1000, rec_16),
          (0x2000, \<lparr>host = True, bytes = 16, h_adrs = 0x2000, d_adrs = 0,
                     ranged = False\<rparr>)]\<rparr>)
   \<and> mm_Erase cfg_host st_16 0x1000 = Inr (0x1000, st_16\<lparr>mng := Some []\<rparr>)"
proof -
  have a: "mng st_xs \<noteq> None" "xs_shifted st_xs \<and> xs_shift st_xs = 2 ^ 48"
    by (simp_all add: st_xs_def)
  have b: "mng st_16 \<noteq> None" "\<not> xs_shifted st_16 \<and> xs_shift st_16 = 0"
    by (simp_all add: st_16_def)
  have c: "mm_Erase cfg_xs st_xs 0x8000000001000 = Inr (0x1000, st_xs\<lparr>mng := Some []\<rparr>)"
    "mm_Erase cfg_host st_16 0x1000 = Inr (0x1000, st_16\<lparr>mng := Some []\<rparr>)"
    by (simp_all add: mm_Erase_def mm_Known.simps st_xs_def st_16_def xsShift_def)
  have d: "mm_Insert cfg_host st_16 0x2000 4 4 False = Inr (0x2000,
        st_16\<lparr>mng := Some [(0x1000, rec_16),
          (0x2000, \<lparr>host = True, bytes = 16, h_adrs = 0x2000, d_adrs = 0,
                     ranged = False\<rparr>)]\<rparr>)"
    by (simp add: mm_Insert.simps mm_Known.simps st_16_def subscript_def mm2dev_zero_def)
  have e: "mm_Insert cfg_xs st_xs 0x2000 4 4 False = Inr (0x8000000002000,
        st_xs\<lparr>mng := Some [(0x8000000001000, rec_xs),
          (0x8000000002000, \<lparr>host = True, bytes = 16, h_adrs = 0x8000000002000,
                              d_adrs = 0, ranged = False\<rparr>)]\<rparr>)"
    by (simp add: mm_Insert.simps mm_Known.simps st_xs_def subscript_def mm2dev_zero_def)
  have f: "mm_Setup cfg_xs initial =
     Inr (initial\<lparr>mng := Some [], xs_shifted := True, xs_shift := 2 ^ 48\<rparr>)"
    by (simp add: mm_Setup_def initial_def cfg_xs_def)
  have g: "xsShift st_xs 0x8000000001000 = 0x1000"
    using a shifter_offsets [OF a(1), of cfg_xs initial initial "0x8000000001000" "0x2000" 4 4 False]
    by simp
  have h: "xsShift st_16 0x1000 = 0x1000"
    using b shifter_offsets [OF b(1), of cfg_host initial initial "0x1000" "0x2000" 4 4 False]
    by simp
  from a b c d e f g h show ?thesis
    by (intro conjI) simp_all
qed

section \<open>Range\<close>

text \<open>
  C5, as stated, fails in two ways.  On a probe address that is itself registered Range
  does not return: it asserts that its argument is not a key, so for the base of a
  block, which lies in the block's extent, the base does not come back.  And a probe
  beyond every extent can still be attributed to a block: the end Range computes is
  \<open>bytes\<close> elements of 8 bytes beyond the base, and the comparison includes it, so a
  probe 64 bytes into the only block, of 16 bytes, yields that block instead of null.
\<close>

theorem Range_counterexample:
  "entry st_16 0x1000 = Some rec_16 \<and> in_extent rec_16 0x1000
   \<and> mm_Range st_16 0x1000 = Inl AssertFailed
   \<and> \<not> in_extent rec_16 0x1040 \<and> mm_Range st_16 0x1040 = Inr 0x1000"
proof -
  have "entry st_16 0x1000 = Some rec_16"
    by (simp add: entry_def st_16_def)
  moreover have "in_extent rec_16 0x1000" "\<not> in_extent rec_16 0x1040"
    by (simp_all add: in_extent_def rec_16_def)
  moreover have "mm_Range st_16 0x1000 = Inl AssertFailed"
    by (simp add: mm_Range_def st_16_def)
  moreover have "mm_Range st_16 0x1040 = Inr 0x1000"
    by (simp add: mm_Range_def st_16_def rec_16_def)
  ultimately show ?thesis by simp
qed

text \<open>
  C5, amended.  On a registered probe address Range fails its assertion.  On any other
  probe it returns the host address of the first record, in scan order, that its test
  accepts, and null when the test accepts none.  The test accepts only records with
  \<open>h_adrs \<le> probe\<close>, and it accepts every record whose byte extent
  \<open>[h_adrs, h_adrs + bytes)\<close> holds the probe (the end Range computes not wrapping
  around).  How far beyond \<open>h_adrs + bytes\<close> the test still accepts is not part of
  the statement.
\<close>

theorem Range_first_accepted:
  assumes "mng st = Some m"
  shows "(map_of m probe \<noteq> None \<longrightarrow> mm_Range st probe = Inl AssertFailed)
     \<and> (map_of m probe = None \<longrightarrow>
          mm_Range st probe =
            Inr (case List.find (\<lambda>e. Range_accepts (snd e) probe) m of
                   None \<Rightarrow> 0
                 | Some e \<Rightarrow> h_adrs (snd e)))
     \<and> (\<forall>e\<in>set m. Range_accepts (snd e) probe \<longrightarrow> h_adrs (snd e) \<le> probe)
     \<and> (\<forall>e\<in>set m. in_extent (snd e) probe
            \<and> unat (h_adrs (snd e)) + 8 * unat (bytes (snd e)) < 2 ^ 64
          \<longrightarrow> Range_accepts (snd e) probe)"
proof (intro conjI impI ballI)
  assume "map_of m probe \<noteq> None"
  with assms show "mm_Range st probe = Inl AssertFailed"
    by (simp add: mm_Range_def)
next
  assume "map_of m probe = None"
  with assms show "mm_Range st probe =
            Inr (case List.find (\<lambda>e. Range_accepts (snd e) probe) m of
                   None \<Rightarrow> 0
                 | Some e \<Rightarrow> h_adrs (snd e))"
    by (rule Range_unregistered)
next
  fix e assume "Range_accepts (snd e) probe"
  then show "h_adrs (snd e) \<le> probe" by (rule accepts_le)
next
  fix e
  assume "in_extent (snd e) probe
            \<and> unat (h_adrs (snd e)) + 8 * unat (bytes (snd e)) < 2 ^ 64"
  then show "Range_accepts (snd e) probe" by (simp add: in_extent_accepts)
qed

theorem Range_first_accepted_witness:
  "mng st_16 = Some [(0x1000, rec_16)]
   \<and> mm_Range st_16 0x1000 = Inl AssertFailed
   \<and> mm_Range st_16 0x1008 = Inr 0x1000
   \<and> mm_Range st_16 0x0800 = Inr 0
   \<and> in_extent rec_16 0x1008 \<and> Range_accepts rec_16 0x1008"
proof -
  have m: "mng st_16 = Some [(0x1000, rec_16)]"
    by (simp add: st_16_def)
  have e: "in_extent rec_16 0x1008" "unat (h_adrs rec_16) + 8 * unat (bytes rec_16) < 2 ^ 64"
    by (simp_all add: in_extent_def rec_16_def)
  have a: "Range_accepts rec_16 0x1008" "\<not> Range_accepts rec_16 0x0800"
    by (simp_all add: Range_accepts_def rec_16_def)
  show ?thesis
    using m e a Range_first_accepted [OF m, of "0x1000"] Range_first_accepted [OF m, of "0x1008"]
      Range_first_accepted [OF m, of "0x0800"]
    by (simp add: rec_16_def)
qed

section \<open>Known with range insertion\<close>

text \<open>
  C1, as stated, fails in two ways.  At offset \<open>k = 0\<close> the base is found by the exact
  lookup, so \<open>Known(b, true)\<close> returns true with the state as it was, no record
  added, and \<open>Range(b)\<close> fails its assertion instead of returning \<open>b\<close>.  And the size
  of the record Known adds is not \<open>n - k\<close>: the offset is counted in elements of 8
  bytes and then taken off the byte count, so 8 bytes into a block of 16 bytes the new
  record gets 15 bytes.
\<close>

theorem Known_range_insert_counterexample:
  "entry st_16 0x1000 = Some rec_16 \<and> bytes rec_16 = 16
   \<and> mm_Known cfg_host st_16 (0x1000 + 0) True = Inr (True, st_16)
   \<and> mm_Range st_16 (0x1000 + 0) = Inl AssertFailed
   \<and> mm_Known cfg_host st_16 (0x1000 + 8) True =
       Inr (True, st_16\<lparr>mng := Some [(0x1000, rec_16),
              (0x1008, \<lparr>host = True, bytes = 15, h_adrs = 0x1008, d_adrs = 0,
                         ranged = False\<rparr>)]\<rparr>)"
proof -
  have "entry st_16 0x1000 = Some rec_16" "bytes rec_16 = 16"
    by (simp_all add: entry_def st_16_def rec_16_def)
  moreover have "mm_Known cfg_host st_16 (0x1000 + 0) True = Inr (True, st_16)"
    by (simp add: mm_Known.simps st_16_def)
  moreover have "mm_Range st_16 (0x1000 + 0) = Inl AssertFailed"
    by (simp add: mm_Range_def st_16_def)
  moreover have "mm_Known cfg_host st_16 (0x1000 + 8) True =
       Inr (True, st_16\<lparr>mng := Some [(0x1000, rec_16),
              (0x1008, \<lparr>host = True, bytes = 15, h_adrs = 0x1008, d_adrs = 0,
                         ranged = False\<rparr>)]\<rparr>)"
    by (simp add: mm_Known.simps mm_Insert.simps mm_Range_def st_16_def rec_16_def
        cfg_host_def subscript_def ptr_diff_def mm2dev_zero_def)
  ultimately show ?thesis by simp
qed

text \<open>
  C1, amended.  Shifter off.  Let \<open>b\<close> (not null) be registered with \<open>n\<close> bytes and
  host address \<open>b\<close>, let no record before it in scan order be accepted for \<open>b + k\<close>,
  let \<open>0 < k < n\<close> with \<open>b + 8 n\<close> not wrapping, and let \<open>b + k\<close> not be registered.
  Then \<open>Range(b + k)\<close> returns \<open>b\<close>, and \<open>Known(b + k, true)\<close> returns true and adds
  exactly one record, for \<open>b + k\<close>, host-resident and without device mirror; all
  other entries and the backend trace stay as they were.  At \<open>k = 0\<close>,
  \<open>Known(b, true)\<close> returns true and changes nothing, and \<open>Range(b)\<close> fails its
  assertion.  The byte size of the new record is not part of the statement.
\<close>

theorem Known_range_insert:
  assumes m: "mng st = Some m"
    and off: "xs_shift st = 0"
    and key: "map_of m b = Some r"
    and rb: "h_adrs r = b" "bytes r = n"
    and bnz: "b \<noteq> 0"
    and order: "m = pre @ (b, r) # post" "\<forall>e\<in>set pre. \<not> Range_accepts (snd e) (b + k)"
    and k: "0 < k" "k < n"
    and nowrap: "unat b + 8 * unat n < 2 ^ 64"
    and unreg: "map_of m (b + k) = None"
  shows "mm_Range st (b + k) = Inr b
     \<and> (\<exists>st' r'. mm_Known cfg st (b + k) True = Inr (True, st')
            \<and> entry st' (b + k) = Some r'
            \<and> h_adrs r' = b + k \<and> host r' \<and> d_adrs r' = 0
            \<and> (\<forall>a. a \<noteq> b + k \<longrightarrow> entry st' a = entry st a)
            \<and> calls st' = calls st)
     \<and> mm_Known cfg st b True = Inr (True, st)
     \<and> mm_Range st b = Inl AssertFailed"
proof -
  have bk: "unat (b + k) = unat b + unat k"
    using k(2) nowrap by (rule unat_plus_small)
  have kn: "unat k < unat n" "0 < unat k"
    using k by (simp_all add: word_less_nat_alt)
  have acc: "Range_accepts r (b + k)"
    using rb bk kn nowrap
    by (simp add: Range_accepts_def word_le_nat_alt word_less_nat_alt unat_scaled_end not_less)
  have "List.find (\<lambda>e. Range_accepts (snd e) (b + k)) m = Some (b, r)"
    unfolding order(1) using order(2) acc by (intro find_first) simp_all
  then have range: "mm_Range st (b + k) = Inr b"
    using m unreg rb by (simp add: Range_unregistered)
  have pos: "0 < bytes r" using rb k by (simp add: word_less_nat_alt)
  have lt: "b < b + k" using bk kn by (simp add: word_less_nat_alt)
  from unreg off have fresh: "map_of m (b + k + 8 * xs_shift st) = None"
    by simp
  have "mm_Insert cfg st (b + k) (n - ptr_diff (b + k) b) 1 (ranged_default cfg) =
      Inr (b + k + 8 * xs_shift st,
          st\<lparr>mng := Some (m @ [(b + k + 8 * xs_shift st,
                 \<lparr>host = True, bytes = (n - ptr_diff (b + k) b) * 1,
                    h_adrs = b + k + 8 * xs_shift st, d_adrs = 0,
                    ranged = ranged_default cfg\<rparr>)])\<rparr>)"
    using m fresh by (rule Insert_fresh)
  with off
  have ins: "mm_Insert cfg st (b + k) (n - ptr_diff (b + k) b) 1 (ranged_default cfg) =
      Inr (b + k,
          st\<lparr>mng := Some (m @ [(b + k,
                 \<lparr>host = True, bytes = n - ptr_diff (b + k) b,
                    h_adrs = b + k, d_adrs = 0, ranged = ranged_default cfg\<rparr>)])\<rparr>)"
    by simp
  define r' where "r' = \<lparr>host = True, bytes = n - ptr_diff (b + k) b,
                     h_adrs = b + k, d_adrs = 0, ranged = ranged_default cfg\<rparr>"
  define st' where "st' = st\<lparr>mng := Some (m @ [(b + k, r')])\<rparr>"
  have known: "mm_Known cfg st (b + k) True = Inr (True, st')"
    using m unreg range bnz key pos lt rb ins
    by (simp add: mm_Known.simps [of cfg st] subscript_hit mng_same st'_def r'_def)
  have new: "entry st' (b + k) = Some r'"
    using unreg by (simp add: entry_def st'_def map_of_snoc del: map_of_append)
  have others: "\<forall>a. a \<noteq> b + k \<longrightarrow> entry st' a = entry st a"
    using m by (simp add: entry_def st'_def map_of_snoc del: map_of_append split: option.splits)
  have "h_adrs r' = b + k" "host r'" "d_adrs r' = 0" "calls st' = calls st"
    by (simp_all add: r'_def st'_def)
  with known new others
  have "\<exists>st' r'. mm_Known cfg st (b + k) True = Inr (True, st')
            \<and> entry st' (b + k) = Some r'
            \<and> h_adrs r' = b + k \<and> host r' \<and> d_adrs r' = 0
            \<and> (\<forall>a. a \<noteq> b + k \<longrightarrow> entry st' a = entry st a)
            \<and> calls st' = calls st"
    by blast
  moreover have "mm_Known cfg st b True = Inr (True, st)"
    using m key by (rule Known_hit)
  moreover have "mm_Range st b = Inl AssertFailed"
    using m key by (simp add: mm_Range_def)
  ultimately show ?thesis using range by blast
qed

theorem Known_range_insert_witness:
  "mm_Range st_16 0x1008 = Inr 0x1000
   \<and> (\<exists>st' r'. mm_Known cfg_host st_16 0x1008 True = Inr (True, st')
          \<and> entry st' 0x1008 = Some r'
          \<and> h_adrs r' = 0x1008 \<and> host r' \<and> d_adrs r' = 0
          \<and> entry st' 0x1000 = Some rec_16
          \<and> calls st' = [])
   \<and> mm_Known cfg_host st_16 0x1000 True = Inr (True, st_16)
   \<and> mm_Range st_16 0x1000 = Inl AssertFailed"
proof -
  have m: "mng st_16 = Some [(0x1000, rec_16)]"
    by (simp add: st_16_def)
  have off: "xs_shift st_16 = 0"
    by (simp add: st_16_def)
  have key: "map_of [(0x1000 :: addr, rec_16)] 0x1000 = Some rec_16"
    by simp
  have rb: "h_adrs rec_16 = 0x1000" "bytes rec_16 = 16"
    by (simp_all add: rec_16_def)
  have bnz: "(0x1000 :: addr) \<noteq> 0"
    by simp
  have order: "[(0x1000 :: addr, rec_16)] = [] @ (0x1000, rec_16) # []"
    "\<forall>e\<in>set []. \<not> Range_accepts (snd e) (0x1000 + 8)"
    by simp_all
  have k: "(0 :: addr) < 8" "(8 :: addr) < 16"
    by simp_all
  have nowrap: "unat (0x1000 :: addr) + 8 * unat (16 :: size_t) < 2 ^ 64"
    by simp
  have unreg: "map_of [(0x1000 :: addr, rec_16)] (0x1000 + 8) = None"
    by simp
  have old: "entry st_16 0x1000 = Some rec_16" "calls st_16 = []"
    by (simp_all add: entry_def st_16_def)
  from Known_range_insert [OF m off key rb bnz order k nowrap unreg, of cfg_host]
  obtain st' r' where "mm_Range st_16 (0x1000 + 8) = Inr 0x1000"
    and "mm_Known cfg_host st_16 (0x1000 + 8) True = Inr (True, st')"
    and "entry st' (0x1000 + 8) = Some r'" "h_adrs r' = 0x1000 + 8" "host r'" "d_adrs r' = 0"
    and "\<forall>a. a \<noteq> 0x1000 + 8 \<longrightarrow> entry st' a = entry st_16 a" "calls st' = calls st_16"
    and "mm_Known cfg_host st_16 0x1000 True = Inr (True, st_16)"
    and "mm_Range st_16 0x1000 = Inl AssertFailed"
    by blast
  with old show ?thesis
    by auto
qed

end
